theory Spec2Isabelle
  imports Complex_Main "HOL-Library.Sublist"
begin

section \<open>Python values and failures\<close>

text \<open>
  The model covers the aggregation methods of class \<open>DebtBot\<close> in \<open>debt_bot.py\<close>
  and the handler \<open>employee_button_handler\<close>, which holds the running total of the
  detail view. A sheet returned by
  \<open>get_sheet_data\<close> is a list of rows, a row a list of cell strings. The two readings of
  the environment, \<open>datetime.now()\<close> and \<open>get_sheet_data\<close>, are parameters of the
  functions that perform them.

  An exception that leaves a method is the \<open>Inl\<close> of its result. The \<open>ValueError\<close> of
  \<open>float\<close> is caught inside the loops and therefore modelled by \<open>None\<close>.
\<close>

datatype error = IndexError | OverflowError | ValueError | NameError

definition bind_err :: "error + 'a \<Rightarrow> ('a \<Rightarrow> error + 'b) \<Rightarrow> error + 'b" where
  "bind_err r f = (case r of Inl e \<Rightarrow> Inl e | Inr x \<Rightarrow> f x)"

text \<open>\<open>xs[i]\<close> for a literal index \<open>i \<ge> 0\<close>: out of range raises \<open>IndexError\<close>.\<close>

definition getitem :: "'a list \<Rightarrow> nat \<Rightarrow> error + 'a" where
  "getitem xs i = (if i < length xs then Inr (xs ! i) else Inl IndexError)"

section \<open>Dates and the billing period label\<close>

text \<open>
  The date part of a Python \<open>datetime\<close>; the time of day plays no role in the label.
  Python's dates run from year 1 (\<open>MINYEAR\<close>) to year 9999 (\<open>MAXYEAR\<close>).
\<close>

record datetime =
  dt_year :: nat
  dt_month :: nat
  dt_day :: nat

definition is_leap :: "nat \<Rightarrow> bool" where
  "is_leap y = (y mod 4 = 0 \<and> (y mod 100 \<noteq> 0 \<or> y mod 400 = 0))"

definition days_in_month :: "nat \<Rightarrow> nat \<Rightarrow> nat" where
  "days_in_month y m =
     (if m = 2 then (if is_leap y then 29 else 28)
      else if m = 4 \<or> m = 6 \<or> m = 9 \<or> m = 11 then 30 else 31)"

definition valid_datetime :: "datetime \<Rightarrow> bool" where
  "valid_datetime d =
     (1 \<le> dt_year d \<and> dt_year d \<le> 9999 \<and> 1 \<le> dt_month d \<and> dt_month d \<le> 12 \<and>
      1 \<le> dt_day d \<and> dt_day d \<le> days_in_month (dt_year d) (dt_month d))"

text \<open>\<open>d.replace(day=n)\<close>: a day outside the month raises \<open>ValueError\<close>.\<close>

definition replace_day :: "datetime \<Rightarrow> nat \<Rightarrow> error + datetime" where
  "replace_day d n =
     (if 1 \<le> n \<and> n \<le> days_in_month (dt_year d) (dt_month d)
      then Inr (d\<lparr>dt_day := n\<rparr>) else Inl ValueError)"

text \<open>
  \<open>d - timedelta(days=1)\<close>: the day before \<open>d\<close>. The day before 1 January of year 1
  is not a Python date, and the subtraction raises \<open>OverflowError\<close>.
\<close>

definition minus_one_day :: "datetime \<Rightarrow> error + datetime" where
  "minus_one_day d =
     (if 1 < dt_day d then Inr (d\<lparr>dt_day := dt_day d - 1\<rparr>)
      else if 1 < dt_month d
        then Inr (d\<lparr>dt_month := dt_month d - 1,
                     dt_day := days_in_month (dt_year d) (dt_month d - 1)\<rparr>)
      else if 1 < dt_year d
        then Inr \<lparr>dt_year = dt_year d - 1, dt_month = 12, dt_day = 31\<rparr>
      else Inl OverflowError)"

definition month_names :: "string list" where
  "month_names =
     [''January'', ''February'', ''March'', ''April'', ''May'', ''June'', ''July'',
      ''August'', ''September'', ''October'', ''November'', ''December'']"

definition digit_char :: "nat \<Rightarrow> char" where
  "digit_char n = ''0123456789'' ! (n mod 10)"

text \<open>
  The year as \<open>%Y\<close> prints it through the C library: in decimal, without leading
  zeros, for the years 1 to 9999 of a Python date.
\<close>

definition year_digits :: "nat \<Rightarrow> string" where
  "year_digits y =
     (if y < 10 then [digit_char y]
      else if y < 100 then [digit_char (y div 10), digit_char y]
      else if y < 1000 then [digit_char (y div 100), digit_char (y div 10), digit_char y]
      else [digit_char (y div 1000), digit_char (y div 100), digit_char (y div 10),
            digit_char y])"

text \<open>
  \<open>d.strftime("%B %Y")\<close> in the default C locale: the English month name, a space and
  the year.
\<close>

definition month_year_label :: "nat \<Rightarrow> nat \<Rightarrow> string" where
  "month_year_label m y = month_names ! (m - 1) @ '' '' @ year_digits y"

definition strftime_B_Y :: "datetime \<Rightarrow> string" where
  "strftime_B_Y d = month_year_label (dt_month d) (dt_year d)"

text \<open>
  Lines 151 to 158 of \<open>calculate_monthly_debt\<close>, with \<open>today = datetime.now()\<close>:
  \<^verbatim>\<open>
  if today.day >= 10:
      month = today.strftime("%B %Y")
  else:
      last_month = today.replace(day=1) - timedelta(days=1)
      month = last_month.strftime("%B %Y")
  \<close>
\<close>

definition resolve_period :: "datetime \<Rightarrow> error + string" where
  "resolve_period today =
     (if 10 \<le> dt_day today then Inr (strftime_B_Y today)
      else bind_err (replace_day today 1) (\<lambda>first.
           bind_err (minus_one_day first) (\<lambda>last_month.
           Inr (strftime_B_Y last_month))))"

text \<open>
  \<open>if not month:\<close> holds for \<open>None\<close> and for the empty string; in both cases the
  label of the current period replaces the argument.
\<close>

definition effective_month :: "datetime \<Rightarrow> string option \<Rightarrow> error + string" where
  "effective_month today month =
     (case month of
        None \<Rightarrow> resolve_period today
      | Some p \<Rightarrow> if p = [] then resolve_period today else Inr p)"

section \<open>The debt aggregator\<close>

text \<open>
  The amounts are the values of Python's \<open>float\<close>. The functions take the conversion
  \<open>float(s)\<close> as the parameter \<open>fl\<close> (\<open>None\<close> where it raises \<open>ValueError\<close>) and
  use \<open>0\<close>, \<open>+\<close> and \<open><\<close> of the amount type, of which nothing is assumed. The
  theorems below hold for every such arithmetic, rounding included.
\<close>

record 'a detail =
  det_date :: string
  det_items :: string
  det_amount :: 'a

text \<open>The body of the loop of \<open>calculate_monthly_debt\<close> (lines 168 to 182).\<close>

definition monthly_row ::
  "(string \<Rightarrow> 'a option) \<Rightarrow> string \<Rightarrow> string \<Rightarrow>
   ('a::{zero,plus,ord}) \<times> 'a detail list \<Rightarrow> string list \<Rightarrow> error + ('a \<times> 'a detail list)" where
  "monthly_row fl employee_name month st row =
     (if 5 \<le> length row then
        bind_err (if 1 < length row then getitem row 1 else Inr []) (\<lambda>debt_employee.
        bind_err (if 4 < length row then getitem row 4 else Inr []) (\<lambda>debt_month.
        if debt_employee = employee_name \<and> debt_month = month then
          bind_err (if 3 < length row then map_sum id fl (getitem row 3) else Inr (Some 0))
            (\<lambda>parsed.
              case parsed of
                None \<Rightarrow> Inr st
              | Some amount \<Rightarrow>
                  bind_err (if 0 < length row then getitem row 0 else Inr []) (\<lambda>date.
                  bind_err (if 2 < length row then getitem row 2 else Inr []) (\<lambda>items.
                  Inr (fst st + amount,
                       snd st @ [\<lparr>det_date = date, det_items = items, det_amount = amount\<rparr>]))))
        else Inr st))
      else Inr st)"

fun monthly_loop ::
  "(string \<Rightarrow> 'a option) \<Rightarrow> string \<Rightarrow> string \<Rightarrow>
   ('a::{zero,plus,ord}) \<times> 'a detail list \<Rightarrow> string list list \<Rightarrow> error + ('a \<times> 'a detail list)" where
  "monthly_loop fl employee_name month st [] = Inr st"
| "monthly_loop fl employee_name month st (row # rows) =
     bind_err (monthly_row fl employee_name month st row) (\<lambda>st'.
       monthly_loop fl employee_name month st' rows)"

text \<open>
  \<open>calculate_monthly_debt(employee_name, month)\<close>; \<open>today\<close> is what
  \<open>datetime.now()\<close> returns and \<open>debts_data\<close> what
  \<open>get_sheet_data('debts')\<close> returns.
\<close>

definition calculate_monthly_debt ::
  "(string \<Rightarrow> 'a option) \<Rightarrow> datetime \<Rightarrow> string list list \<Rightarrow> string \<Rightarrow> string option \<Rightarrow>
   error + (('a::{zero,plus,ord}) \<times> 'a detail list)" where
  "calculate_monthly_debt fl today debts_data employee_name month =
     bind_err (effective_month today month) (\<lambda>month'.
       if length debts_data < 2 then Inr (0, [])
       else monthly_loop fl employee_name month' (0, []) (drop 1 debts_data))"

text \<open>
  An entry of the list that \<open>get_daily_debts\<close> returns, and the body of its loop
  (lines 194 to 210). The filter \<open>employee_name\<close> is \<open>None\<close> when the argument is
  left out; \<open>if employee_name and ...\<close> is false for \<open>None\<close> and for the empty string.
\<close>

record 'a daily_debt =
  dd_employee :: string
  dd_items :: string
  dd_amount :: 'a

definition truthy :: "string option \<Rightarrow> bool" where
  "truthy s = (case s of None \<Rightarrow> False | Some t \<Rightarrow> t \<noteq> [])"

definition daily_row ::
  "(string \<Rightarrow> 'a option) \<Rightarrow> string \<Rightarrow> string option \<Rightarrow>
   ('a::{zero,plus,ord}) daily_debt list \<Rightarrow> string list \<Rightarrow> error + 'a daily_debt list" where
  "daily_row fl date employee_name daily_debts row =
     (if 4 \<le> length row then
        bind_err (if 0 < length row then getitem row 0 else Inr []) (\<lambda>debt_date.
        bind_err (if 1 < length row then getitem row 1 else Inr []) (\<lambda>debt_employee.
        if debt_date = date then
          if truthy employee_name \<and> Some debt_employee \<noteq> employee_name then Inr daily_debts
          else
            bind_err (if 3 < length row then map_sum id fl (getitem row 3) else Inr (Some 0))
              (\<lambda>parsed.
                case parsed of
                  None \<Rightarrow> Inr daily_debts
                | Some amount \<Rightarrow>
                    bind_err (if 2 < length row then getitem row 2 else Inr []) (\<lambda>items.
                    Inr (daily_debts @
                      [\<lparr>dd_employee = debt_employee, dd_items = items, dd_amount = amount\<rparr>])))
        else Inr daily_debts))
      else Inr daily_debts)"

fun daily_loop ::
  "(string \<Rightarrow> 'a option) \<Rightarrow> string \<Rightarrow> string option \<Rightarrow>
   ('a::{zero,plus,ord}) daily_debt list \<Rightarrow> string list list \<Rightarrow> error + 'a daily_debt list" where
  "daily_loop fl date employee_name daily_debts [] = Inr daily_debts"
| "daily_loop fl date employee_name daily_debts (row # rows) =
     bind_err (daily_row fl date employee_name daily_debts row) (\<lambda>daily_debts'.
       daily_loop fl date employee_name daily_debts' rows)"

definition get_daily_debts ::
  "(string \<Rightarrow> 'a option) \<Rightarrow> string list list \<Rightarrow> string \<Rightarrow> string option \<Rightarrow>
   error + ('a::{zero,plus,ord}) daily_debt list" where
  "get_daily_debts fl debts_data date employee_name =
     (if length debts_data < 2 then Inr []
      else daily_loop fl date employee_name [] (drop 1 debts_data))"

section \<open>The summary builder\<close>

text \<open>\<open>get_all_employees\<close>, with \<open>employees_data = get_sheet_data('employees')\<close>.\<close>

fun employees_loop :: "string list \<Rightarrow> string list list \<Rightarrow> error + string list" where
  "employees_loop employees [] = Inr employees"
| "employees_loop employees (row # rows) =
     (if 1 < length row
      then bind_err (getitem row 1) (\<lambda>name. employees_loop (employees @ [name]) rows)
      else employees_loop employees rows)"

definition get_all_employees :: "string list list \<Rightarrow> error + string list" where
  "get_all_employees employees_data =
     (if length employees_data < 2 then Inr []
      else employees_loop [] (drop 1 employees_data))"

text \<open>
  A line of the summary, \<open>f"{employee}: {employee_total} \<dots>"\<close>, is kept as the pair of
  the two values it interpolates; the text that Python prints for a float is not
  modelled.
\<close>

record 'a summary_line =
  sl_employee :: string
  sl_total :: 'a

fun summary_loop ::
  "(string \<Rightarrow> 'a option) \<Rightarrow> datetime \<Rightarrow> string list list \<Rightarrow> string option \<Rightarrow>
   ('a::{zero,plus,ord}) \<times> 'a summary_line list \<Rightarrow> string list \<Rightarrow>
   error + ('a \<times> 'a summary_line list)" where
  "summary_loop fl today debts_data month st [] = Inr st"
| "summary_loop fl today debts_data month st (employee # employees) =
     bind_err (calculate_monthly_debt fl today debts_data employee month) (\<lambda>r.
       let employee_total = fst r in
       if 0 < employee_total
       then summary_loop fl today debts_data month
              (fst st + employee_total,
               snd st @ [\<lparr>sl_employee = employee, sl_total = employee_total\<rparr>]) employees
       else summary_loop fl today debts_data month st employees)"

definition get_all_debts_summary ::
  "(string \<Rightarrow> 'a option) \<Rightarrow> datetime \<Rightarrow> string list list \<Rightarrow> string list list \<Rightarrow>
   string option \<Rightarrow> error + (('a::{zero,plus,ord}) \<times> 'a summary_line list)" where
  "get_all_debts_summary fl today employees_data debts_data month =
     bind_err (get_all_employees employees_data) (\<lambda>employees.
       summary_loop fl today debts_data month (0, []) employees)"

section \<open>The employee's handler and its running total\<close>

text \<open>
  \<open>get_employee_name(user_id)\<close>; the identifier is compared as text, so \<open>user_id\<close>
  stands for \<open>str(user_id)\<close>. A row that has the identifier and no name cell gives a
  fixed word, written here as its UTF-8 bytes.
\<close>

definition unknown_name :: string where
  "unknown_name =
     [CHR 0xD0, CHR 0x9D, CHR 0xD0, CHR 0xB5, CHR 0xD0, CHR 0xB8, CHR 0xD0, CHR 0xB7,
      CHR 0xD0, CHR 0xB2, CHR 0xD0, CHR 0xB5, CHR 0xD1, CHR 0x81, CHR 0xD1, CHR 0x82,
      CHR 0xD0, CHR 0xBD, CHR 0xD1, CHR 0x8B, CHR 0xD0, CHR 0xB9]"

fun get_employee_name_loop :: "string \<Rightarrow> string list list \<Rightarrow> error + string option" where
  "get_employee_name_loop user_id [] = Inr None"
| "get_employee_name_loop user_id (row # rows) =
     (if 0 < length row then
        bind_err (getitem row 0) (\<lambda>cell.
          if cell = user_id
          then (if 1 < length row then map_sum id Some (getitem row 1)
                else Inr (Some unknown_name))
          else get_employee_name_loop user_id rows)
      else get_employee_name_loop user_id rows)"

definition get_employee_name :: "string list list \<Rightarrow> string \<Rightarrow> error + string option" where
  "get_employee_name employees_data user_id =
     get_employee_name_loop user_id (drop 1 employees_data)"

text \<open>
  The loop of the detail view, lines 348 to 354 of \<open>employee_button_handler\<close>:
  \<^verbatim>\<open>
  running_total = 0
  for detail in details:
      running_total += detail['amount']
      message += ... (Accumulated: {running_total}) ...
  \<close>
  Each block of the message is kept as the detail together with the value of
  \<open>running_total\<close> printed beside it.
\<close>

fun running_total_loop ::
  "('a::{zero,plus,ord}) \<Rightarrow> ('a detail \<times> 'a) list \<Rightarrow> 'a detail list \<Rightarrow> ('a detail \<times> 'a) list" where
  "running_total_loop running_total message [] = message"
| "running_total_loop running_total message (detail # details) =
     (let running_total' = running_total + det_amount detail
      in running_total_loop running_total' (message @ [(detail, running_total')]) details)"

text \<open>
  The names that the body of \<open>employee_button_handler\<close> can read: its two parameters
  and the names bound at the top level of \<open>debt_bot.py\<close> by its imports, assignments
  and definitions. Reading any other name that is not a builtin raises \<open>NameError\<close>;
  Python has no builtin called \<open>update\<close>, and the module imports \<open>Update\<close>, with a
  capital letter.
\<close>

definition module_names :: "string list" where
  "module_names =
     [''logging'', ''asyncio'', ''datetime'', ''timedelta'', ''Update'',
      ''InlineKeyboardButton'', ''InlineKeyboardMarkup'', ''Application'',
      ''CommandHandler'', ''CallbackQueryHandler'', ''ConversationHandler'',
      ''MessageHandler'', ''filters'', ''ParseMode'', ''build'', ''service_account'',
      ''schedule'', ''time'', ''Thread'', ''TELEGRAM_TOKEN'', ''GOOGLE_API_KEY'',
      ''SPREADSHEET_ID'', ''ADMIN_IDS'', ''ENABLE_NOTIFICATIONS'', ''ENABLE_LOGGING'',
      ''NOTIFICATION_HOUR'', ''GOOGLE_SCOPES'', ''logger'', ''SELECTING_ACTION'',
      ''TYPING_DATE'', ''TYPING_EMPLOYEE'', ''SHEET_NAMES'', ''DebtBot'', ''bot'',
      ''start'', ''button_handler'', ''admin_button_handler'', ''employee_button_handler'',
      ''show_all_debts'', ''send_notifications'', ''show_help'', ''handle_text'',
      ''start_from_query'', ''start_from_message'', ''error_handler'',
      ''send_scheduled_notifications'', ''scheduler_thread'', ''main'']"

definition handler_names :: "string list" where
  "handler_names = [''query'', ''context''] @ module_names"

definition load_name :: "string list \<Rightarrow> string \<Rightarrow> error + unit" where
  "load_name names n = (if n \<in> set names then Inr () else Inl NameError)"

text \<open>
  What the handler sends. The text of a message is not modelled; a reply keeps the
  values that the message interpolates: the month label, the total, the last five
  details of the short view, the blocks of the detail view.
\<close>

datatype 'a reply =
    NameNotFound
  | DebtTotal string 'a "'a detail list"
  | AskDate string
  | NoDebts string
  | DebtDetails string "('a detail \<times> 'a) list" 'a
  | NoReply

text \<open>
  \<open>employee_button_handler(query, context)\<close>, lines 309 to 357; \<open>query_data\<close> is
  \<open>query.data\<close>. Its first statement is
  \<^verbatim>\<open>employee_name = bot.get_employee_name(update.effective_user.id)\<close>
  which reads the name \<open>update\<close> before anything else. The parameter \<open>user_id\<close> is
  the identifier that the expression would pass on if that name were bound.
\<close>

definition employee_button_handler ::
  "(string \<Rightarrow> 'a option) \<Rightarrow> datetime \<Rightarrow> string list list \<Rightarrow> string list list \<Rightarrow>
   string \<Rightarrow> string \<Rightarrow> error + ('a::{zero,plus,ord}) reply" where
  "employee_button_handler fl today employees_data debts_data user_id query_data =
     bind_err (load_name handler_names ''update'') (\<lambda>_.
     bind_err (get_employee_name employees_data user_id) (\<lambda>found.
       case found of
         None \<Rightarrow> Inr NameNotFound
       | Some employee_name \<Rightarrow>
           if employee_name = [] then Inr NameNotFound
           else if query_data = ''my_debt_total'' then
             bind_err (calculate_monthly_debt fl today debts_data employee_name None) (\<lambda>r.
               Inr (DebtTotal (strftime_B_Y today) (fst r)
                      (drop (length (snd r) - 5) (snd r))))
           else if query_data = ''my_debt_daily'' then Inr (AskDate employee_name)
           else if query_data = ''my_debt_details'' then
             bind_err (calculate_monthly_debt fl today debts_data employee_name None) (\<lambda>r.
               if snd r = [] then Inr (NoDebts (strftime_B_Y today))
               else Inr (DebtDetails (strftime_B_Y today)
                           (running_total_loop 0 [] (snd r)) (fst r)))
           else Inr NoReply))"

section \<open>A concrete float for evaluation\<close>

text \<open>
  The examples below run the functions on concrete sheets, with \<open>py_float\<close> as the
  conversion. It reads a string as Python's \<open>float\<close> reads ASCII text: surrounding
  blanks, a sign, \<open>inf\<close>, \<open>infinity\<close> or \<open>nan\<close> in any case, or a decimal
  number with an optional fraction and exponent, where single underscores may stand
  between digits. Two things of \<open>float\<close> are outside it: the blanks and decimal digits
  of Unicode beyond ASCII, which \<open>float\<close> accepts as well, and the rounding of a
  finite value to binary64 with its overflow and underflow, since finite values are
  kept exact here. The amount cells evaluated below are ASCII, and their values and
  sums are small integers and halves, which binary64 holds exactly. The general
  theorems do not mention \<open>py_float\<close>: they hold for every conversion and arithmetic.
\<close>

datatype pyfloat = Finite rat | PosInf | NegInf | NaN

fun pyfloat_add :: "pyfloat \<Rightarrow> pyfloat \<Rightarrow> pyfloat" where
  "pyfloat_add (Finite x) (Finite y) = Finite (x + y)"
| "pyfloat_add NaN _ = NaN"
| "pyfloat_add _ NaN = NaN"
| "pyfloat_add PosInf NegInf = NaN"
| "pyfloat_add NegInf PosInf = NaN"
| "pyfloat_add PosInf _ = PosInf"
| "pyfloat_add _ PosInf = PosInf"
| "pyfloat_add NegInf _ = NegInf"
| "pyfloat_add _ NegInf = NegInf"

fun pyfloat_less :: "pyfloat \<Rightarrow> pyfloat \<Rightarrow> bool" where
  "pyfloat_less (Finite x) (Finite y) = (x < y)"
| "pyfloat_less NaN _ = False"
| "pyfloat_less _ NaN = False"
| "pyfloat_less _ NegInf = False"
| "pyfloat_less PosInf _ = False"
| "pyfloat_less NegInf _ = True"
| "pyfloat_less _ PosInf = True"

instantiation pyfloat :: "{zero, plus, ord}"
begin

definition zero_pyfloat :: pyfloat where
  "zero_pyfloat = Finite 0"

definition plus_pyfloat :: "pyfloat \<Rightarrow> pyfloat \<Rightarrow> pyfloat" where
  "plus_pyfloat a b = pyfloat_add a b"

definition less_pyfloat :: "pyfloat \<Rightarrow> pyfloat \<Rightarrow> bool" where
  "less_pyfloat a b = pyfloat_less a b"

definition less_eq_pyfloat :: "pyfloat \<Rightarrow> pyfloat \<Rightarrow> bool" where
  "less_eq_pyfloat a b = (pyfloat_less a b \<or> (a = b \<and> a \<noteq> NaN))"

instance ..

end

definition is_digit :: "char \<Rightarrow> bool" where
  "is_digit c = (c \<in> set ''0123456789'')"

definition digit_val :: "char \<Rightarrow> nat" where
  "digit_val c = length (takeWhile (\<lambda>d. d \<noteq> c) ''0123456789'')"

definition digits_val :: "string \<Rightarrow> nat" where
  "digits_val ds = foldl (\<lambda>n c. 10 * n + digit_val c) 0 ds"

text \<open>The blanks that \<open>float\<close> strips from an ASCII string.\<close>

definition is_space :: "char \<Rightarrow> bool" where
  "is_space c = (c \<in> set [CHR '' '', CHR 0x09, CHR 0x0A, CHR 0x0B, CHR 0x0C, CHR 0x0D])"

definition strip :: "string \<Rightarrow> string" where
  "strip s = rev (dropWhile is_space (rev (dropWhile is_space s)))"

text \<open>An underscore must follow a digit and precede a digit.\<close>

fun underscores_ok :: "char \<Rightarrow> string \<Rightarrow> bool" where
  "underscores_ok prev [] = (prev \<noteq> CHR ''_'')"
| "underscores_ok prev (c # cs) =
     ((if c = CHR ''_'' then is_digit prev else prev \<noteq> CHR ''_'' \<or> is_digit c) \<and>
      underscores_ok c cs)"

definition ci_match :: "string \<Rightarrow> string \<Rightarrow> string \<Rightarrow> bool" where
  "ci_match s lower upper = list_all2 (\<lambda>c p. c = fst p \<or> c = snd p) s (zip lower upper)"

definition parse_decimal :: "string \<Rightarrow> rat option" where
  "parse_decimal s =
     (let ip = takeWhile is_digit s;
          r1 = dropWhile is_digit s;
          has_dot = (r1 \<noteq> [] \<and> hd r1 = CHR ''.'');
          fp = (if has_dot then takeWhile is_digit (tl r1) else []);
          r2 = (if has_dot then dropWhile is_digit (tl r1) else r1);
          mant = of_nat (digits_val (ip @ fp)) / 10 ^ length fp
      in if ip = [] \<and> fp = [] then None
         else if r2 = [] then Some mant
         else if hd r2 = CHR ''e'' \<or> hd r2 = CHR ''E'' then
           (let t = tl r2;
                neg = (t \<noteq> [] \<and> hd t = CHR ''-'');
                ds = (if t \<noteq> [] \<and> (hd t = CHR ''-'' \<or> hd t = CHR ''+'') then tl t else t)
            in if ds \<noteq> [] \<and> list_all is_digit ds
               then Some (if neg then mant / 10 ^ digits_val ds else mant * 10 ^ digits_val ds)
               else None)
         else None)"

definition py_float :: "string \<Rightarrow> pyfloat option" where
  "py_float s =
     (if underscores_ok (CHR 0x00) s then
        (let t = strip (filter (\<lambda>c. c \<noteq> CHR ''_'') s);
             neg = (t \<noteq> [] \<and> hd t = CHR ''-'');
             u = (if t \<noteq> [] \<and> (hd t = CHR ''-'' \<or> hd t = CHR ''+'') then tl t else t)
         in if ci_match u ''inf'' ''INF'' \<or> ci_match u ''infinity'' ''INFINITY''
            then Some (if neg then NegInf else PosInf)
            else if ci_match u ''nan'' ''NAN'' then Some NaN
            else map_option (\<lambda>q. Finite (if neg then - q else q)) (parse_decimal u))
      else None)"

section \<open>What the loops compute\<close>

text \<open>
  The rows that \<open>calculate_monthly_debt\<close> selects for an employee and a period label,
  and the detail it builds from a selected row whose amount \<open>float\<close> accepts.
\<close>

definition monthly_match :: "string \<Rightarrow> string \<Rightarrow> string list \<Rightarrow> bool" where
  "monthly_match employee_name month row =
     (5 \<le> length row \<and> row ! 1 = employee_name \<and> row ! 4 = month)"

definition monthly_detail :: "(string \<Rightarrow> 'a option) \<Rightarrow> string list \<Rightarrow> 'a detail option" where
  "monthly_detail fl row =
     map_option (\<lambda>a. \<lparr>det_date = row ! 0, det_items = row ! 2, det_amount = a\<rparr>) (fl (row ! 3))"

definition matched_details ::
  "(string \<Rightarrow> 'a option) \<Rightarrow> string \<Rightarrow> string \<Rightarrow> string list list \<Rightarrow> 'a detail list" where
  "matched_details fl employee_name month rows =
     List.map_filter (monthly_detail fl) (filter (monthly_match employee_name month) rows)"

text \<open>The sum as the loops form it: from \<open>0\<close>, adding the amounts from left to right.\<close>

definition sum_amounts :: "('a::{zero,plus,ord}) list \<Rightarrow> 'a" where
  "sum_amounts xs = foldl (+) 0 xs"

text \<open>The same for \<open>get_daily_debts\<close>.\<close>

definition daily_match :: "string \<Rightarrow> string option \<Rightarrow> string list \<Rightarrow> bool" where
  "daily_match date employee_name row =
     (4 \<le> length row \<and> row ! 0 = date \<and>
      (if truthy employee_name then Some (row ! 1) = employee_name else True))"

definition daily_entry :: "(string \<Rightarrow> 'a option) \<Rightarrow> string list \<Rightarrow> 'a daily_debt option" where
  "daily_entry fl row =
     map_option (\<lambda>a. \<lparr>dd_employee = row ! 1, dd_items = row ! 2, dd_amount = a\<rparr>) (fl (row ! 3))"

definition daily_entries ::
  "(string \<Rightarrow> 'a option) \<Rightarrow> string \<Rightarrow> string option \<Rightarrow> string list list \<Rightarrow> 'a daily_debt list" where
  "daily_entries fl date employee_name rows =
     List.map_filter (daily_entry fl) (filter (daily_match date employee_name) rows)"

text \<open>The names that \<open>get_all_employees\<close> lists, and the total of one employee.\<close>

definition employee_names :: "string list list \<Rightarrow> string list" where
  "employee_names employees_data =
     map (\<lambda>row. row ! 1) (filter (\<lambda>row. 1 < length row) (drop 1 employees_data))"

definition employee_total ::
  "(string \<Rightarrow> 'a option) \<Rightarrow> datetime \<Rightarrow> string list list \<Rightarrow> string option \<Rightarrow> string \<Rightarrow>
   ('a::{zero,plus,ord})" where
  "employee_total fl today debts_data month employee =
     (case calculate_monthly_debt fl today debts_data employee month of
        Inl e \<Rightarrow> 0
      | Inr r \<Rightarrow> fst r)"

text \<open>The month before month \<open>m\<close> of year \<open>y\<close>, as a pair of month and year.\<close>

definition previous_month :: "nat \<Rightarrow> nat \<Rightarrow> nat \<times> nat" where
  "previous_month m y = (if m = 1 then (12, y - 1) else (m - 1, y))"

section \<open>Example sheets\<close>

definition example_header :: "string list" where
  "example_header = [''date'', ''employee'', ''items'', ''amount'', ''period'']"

definition example_today :: datetime where
  "example_today = \<lparr>dt_year = 2024, dt_month = 3, dt_day = 15\<rparr>"

definition example_debts :: "string list list" where
  "example_debts =
     [example_header,
      [''11.03.2024'', ''Bob'', ''tea'', ''5'', ''March 2024''],
      [''11.03.2024'', ''Ann'', ''cake'', ''7'', ''March 2024''],
      [''12.03.2024'', ''Bob'', ''pie'', ''2.5'', ''March 2024''],
      [''12.02.2024'', ''Bob'', ''jam'', ''1'', ''February 2024'']]"

definition example_blank_label :: "string list list" where
  "example_blank_label =
     [example_header, [''11.03.2024'', ''Bob'', ''tea'', ''5'', '''']]"

definition example_daily :: "string list list" where
  "example_daily =
     [example_header,
      [''11.03.2024'', ''Bob'', ''tea'', ''5'', ''March 2024''],
      [''11.03.2024'', [], ''cake'', ''7'', ''March 2024''],
      [''12.03.2024'', ''Bob'', ''pie'', ''2.5'', ''March 2024'']]"

definition example_ragged :: "string list list" where
  "example_ragged =
     [example_header,
      [''11.03.2024'', ''Bob'', ''tea'', ''5'', ''March 2024''],
      [''11.03.2024'', ''Bob'', ''cake'', ''7''],
      [''11.03.2024'', ''Bob'', ''pie''],
      [],
      [''12.03.2024'', ''Bob'', ''jam'', ''1'', ''March 2024'']]"

definition example_malformed :: "string list list" where
  "example_malformed =
     [example_header,
      [''11.03.2024'', ''Bob'', ''tea'', ''1'', ''March 2024''],
      [''11.03.2024'', ''Bob'', ''cake'', ''2'', ''March 2024''],
      [''11.03.2024'', ''Bob'', ''pie'', ''abc'', ''March 2024''],
      [''11.03.2024'', ''Bob'', ''jam'', ''3'', ''March 2024''],
      [''11.03.2024'', ''Bob'', ''bun'', ''4'', ''March 2024'']]"

definition example_refund :: "string list list" where
  "example_refund =
     [example_header,
      [''11.03.2024'', ''Bob'', ''tea'', ''5'', ''March 2024''],
      [''11.03.2024'', ''Bob'', ''refund'', ''-5'', ''March 2024'']]"

definition example_employees :: "string list list" where
  "example_employees =
     [[''id'', ''name''], [''101'', ''A''], [''102'', ''B''], [''103''], [''104'', ''C'']]"

definition example_abc :: "string list list" where
  "example_abc =
     [example_header,
      [''11.03.2024'', ''A'', ''tea'', ''50'', ''March 2024''],
      [''11.03.2024'', ''B'', ''cake'', ''0'', ''March 2024''],
      [''12.03.2024'', ''C'', ''pie'', ''30'', ''March 2024'']]"

definition example_details :: "pyfloat detail list" where
  "example_details =
     [\<lparr>det_date = ''11.03.2024'', det_items = ''tea'', det_amount = Finite 10\<rparr>,
      \<lparr>det_date = ''12.03.2024'', det_items = ''pie'', det_amount = Finite 5\<rparr>,
      \<lparr>det_date = ''13.03.2024'', det_items = ''jam'', det_amount = Finite 20\<rparr>]"

definition example_loan :: "string list list" where
  "example_loan =
     [example_header,
      [''11.03.2024'', ''A'', ''tea'', ''10'', ''March 2024''],
      [''12.03.2024'', ''A'', ''pie'', ''5'', ''March 2024''],
      [''13.03.2024'', ''A'', ''jam'', ''20'', ''March 2024'']]"

section \<open>The loops in closed form\<close>

lemma monthly_row_eq:
  "monthly_row fl e m st row =
     Inr (if monthly_match e m row
          then (case monthly_detail fl row of None \<Rightarrow> st
                | Some d \<Rightarrow> (fst st + det_amount d, snd st @ [d]))
          else st)"
  by (auto simp: monthly_row_def monthly_match_def monthly_detail_def bind_err_def getitem_def
      split: option.splits)

lemma monthly_loop_eq:
  "monthly_loop fl e m st rows =
     Inr (foldl (+) (fst st) (map det_amount (matched_details fl e m rows)),
          snd st @ matched_details fl e m rows)"
proof (induction rows arbitrary: st)
  case Nil
  show ?case by (simp add: matched_details_def)
next
  case (Cons row rows)
  show ?case
    by (simp add: monthly_row_eq bind_err_def Cons.IH matched_details_def
        split: option.splits)
qed

lemma calculate_monthly_debt_eq:
  assumes "effective_month today month = Inr m"
  shows "calculate_monthly_debt fl today debts_data e month =
           Inr (sum_amounts (map det_amount (matched_details fl e m (drop 1 debts_data))),
                matched_details fl e m (drop 1 debts_data))"
proof (cases "length debts_data < 2")
  case True
  then have "drop 1 debts_data = []" by simp
  with True assms show ?thesis
    by (simp add: calculate_monthly_debt_def bind_err_def matched_details_def sum_amounts_def)
next
  case False
  with assms show ?thesis
    by (simp add: calculate_monthly_debt_def bind_err_def monthly_loop_eq sum_amounts_def)
qed

lemma calculate_monthly_debt_raises:
  assumes "effective_month today month = Inl x"
  shows "calculate_monthly_debt fl today debts_data e month = Inl x"
  using assms by (simp add: calculate_monthly_debt_def bind_err_def)

lemma daily_row_eq:
  "daily_row fl date emp acc row =
     Inr (if daily_match date emp row
          then (case daily_entry fl row of None \<Rightarrow> acc | Some x \<Rightarrow> acc @ [x])
          else acc)"
  by (auto simp: daily_row_def daily_match_def daily_entry_def bind_err_def getitem_def
      split: option.splits)

lemma daily_loop_eq:
  "daily_loop fl date emp acc rows = Inr (acc @ daily_entries fl date emp rows)"
proof (induction rows arbitrary: acc)
  case Nil
  show ?case by (simp add: daily_entries_def)
next
  case (Cons row rows)
  show ?case
    by (simp add: daily_row_eq bind_err_def Cons.IH daily_entries_def split: option.splits)
qed

lemma get_daily_debts_eq:
  "get_daily_debts fl debts_data date emp = Inr (daily_entries fl date emp (drop 1 debts_data))"
proof (cases "length debts_data < 2")
  case True
  then have "drop 1 debts_data = []" by simp
  with True show ?thesis by (simp add: get_daily_debts_def daily_entries_def)
next
  case False
  then show ?thesis by (simp add: get_daily_debts_def daily_loop_eq)
qed

lemma employees_loop_eq:
  "employees_loop acc rows =
     Inr (acc @ map (\<lambda>row. row ! 1) (filter (\<lambda>row. 1 < length row) rows))"
  by (induction rows arbitrary: acc) (simp_all add: bind_err_def getitem_def)

lemma get_all_employees_eq:
  "get_all_employees employees_data = Inr (employee_names employees_data)"
proof (cases "length employees_data < 2")
  case True
  then have "drop 1 employees_data = []" by simp
  with True show ?thesis by (simp add: get_all_employees_def employee_names_def)
next
  case False
  then show ?thesis by (simp add: get_all_employees_def employee_names_def employees_loop_eq)
qed

lemma summary_loop_eq:
  assumes "effective_month today month = Inr m"
  shows "summary_loop fl today debts_data month st employees =
     Inr (foldl (+) (fst st)
            (map (employee_total fl today debts_data month)
               (filter (\<lambda>e. 0 < employee_total fl today debts_data month e) employees)),
          snd st @
            map (\<lambda>e. \<lparr>sl_employee = e, sl_total = employee_total fl today debts_data month e\<rparr>)
              (filter (\<lambda>e. 0 < employee_total fl today debts_data month e) employees))"
proof (induction employees arbitrary: st)
  case Nil
  show ?case by simp
next
  case (Cons employee employees)
  obtain r where r: "calculate_monthly_debt fl today debts_data employee month = Inr r"
    using calculate_monthly_debt_eq [OF assms] by blast
  then have t: "employee_total fl today debts_data month employee = fst r"
    by (simp add: employee_total_def)
  show ?case
    by (simp add: r t bind_err_def Cons.IH Let_def)
qed

lemma running_total_loop_eq:
  "running_total_loop rt message details =
     message @ map (\<lambda>i. (details ! i, foldl (+) rt (map det_amount (take (Suc i) details))))
                 [0..<length details]"
proof (induction details arbitrary: rt message)
  case Nil
  show ?case by simp
next
  case (Cons d ds)
  have "[0..<length (d # ds)] = 0 # map Suc [0..<length ds]"
    by (simp add: upt_conv_Cons map_Suc_upt del: upt_Suc)
  then show ?case
    by (simp add: Cons.IH Let_def comp_def del: upt_Suc)
qed

section \<open>The total of an employee for a period\<close>

lemma matched_details_append:
  "matched_details fl e m (rows @ [row]) =
     (if monthly_match e m row
      then matched_details fl e m rows @ (case monthly_detail fl row of None \<Rightarrow> [] | Some d \<Rightarrow> [d])
      else matched_details fl e m rows)"
  by (simp add: matched_details_def map_filter_def split: option.splits)

text \<open>
  Claim C1, as the code has it. Let \<open>m\<close> be the label in force: the argument
  \<open>month\<close> when it is given and not empty, the label of the current billing period
  otherwise. Then \<open>calculate_monthly_debt\<close> returns as details, in the order of the
  sheet, the rows after the header that have at least five cells, whose employee cell
  equals \<open>employee_name\<close> and whose period cell equals \<open>m\<close> as strings, and whose
  amount \<open>float\<close> accepts; the total is the sum of their amounts, added from left to
  right. Appending a row that does not match \<open>employee_name\<close> and \<open>m\<close> changes
  neither.
\<close>

theorem calculate_monthly_debt_sum:
  assumes "effective_month today month = Inr m"
  shows "calculate_monthly_debt fl today debts_data employee_name month =
           Inr (sum_amounts
                  (map det_amount (matched_details fl employee_name m (drop 1 debts_data))),
                matched_details fl employee_name m (drop 1 debts_data)) \<and>
         (\<not> monthly_match employee_name m row \<longrightarrow>
            calculate_monthly_debt fl today (debts_data @ [row]) employee_name month =
            calculate_monthly_debt fl today debts_data employee_name month)"
proof
  show "calculate_monthly_debt fl today debts_data employee_name month =
           Inr (sum_amounts
                  (map det_amount (matched_details fl employee_name m (drop 1 debts_data))),
                matched_details fl employee_name m (drop 1 debts_data))"
    by (rule calculate_monthly_debt_eq [OF assms])
next
  show "\<not> monthly_match employee_name m row \<longrightarrow>
            calculate_monthly_debt fl today (debts_data @ [row]) employee_name month =
            calculate_monthly_debt fl today debts_data employee_name month"
  proof
    assume nm: "\<not> monthly_match employee_name m row"
    have "matched_details fl employee_name m (drop 1 (debts_data @ [row])) =
          matched_details fl employee_name m (drop 1 debts_data)"
    proof (cases debts_data)
      case Nil
      then show ?thesis by (simp add: matched_details_def)
    next
      case (Cons h rest)
      with nm show ?thesis by (simp add: matched_details_append)
    qed
    then show "calculate_monthly_debt fl today (debts_data @ [row]) employee_name month =
            calculate_monthly_debt fl today debts_data employee_name month"
      by (simp add: calculate_monthly_debt_eq [OF assms])
  qed
qed

theorem calculate_monthly_debt_sum_witness:
  "effective_month example_today None = Inr ''March 2024'' \<and>
   calculate_monthly_debt py_float example_today example_debts ''Bob'' None =
     Inr (Finite (15 / 2),
          [\<lparr>det_date = ''11.03.2024'', det_items = ''tea'', det_amount = Finite 5\<rparr>,
           \<lparr>det_date = ''12.03.2024'', det_items = ''pie'', det_amount = Finite (5 / 2)\<rparr>]) \<and>
   calculate_monthly_debt py_float example_today
       (example_debts @ [[''13.03.2024'', ''Ann'', ''bun'', ''3'', ''March 2024'']]) ''Bob'' None =
     calculate_monthly_debt py_float example_today example_debts ''Bob'' None"
proof -
  have h: "effective_month example_today None = Inr ''March 2024''"
    by code_simp
  have n: "\<not> monthly_match ''Bob'' ''March 2024''
              [''13.03.2024'', ''Ann'', ''bun'', ''3'', ''March 2024'']"
    by code_simp
  have d: "matched_details py_float ''Bob'' ''March 2024'' (drop 1 example_debts) =
          [\<lparr>det_date = ''11.03.2024'', det_items = ''tea'', det_amount = Finite 5\<rparr>,
           \<lparr>det_date = ''12.03.2024'', det_items = ''pie'', det_amount = Finite (5 / 2)\<rparr>]"
    by code_simp
  have s: "sum_amounts (map det_amount
          [\<lparr>det_date = ''11.03.2024'', det_items = ''tea'', det_amount = Finite 5\<rparr>,
           \<lparr>det_date = ''12.03.2024'', det_items = ''pie'', det_amount = Finite (5 / 2)\<rparr>]) =
        Finite (15 / 2)"
    by code_simp
  note t = calculate_monthly_debt_sum
      [OF h, of py_float example_debts "''Bob''"
         "[''13.03.2024'', ''Ann'', ''bun'', ''3'', ''March 2024'']", unfolded d s]
  show ?thesis using t n h by blast
qed

text \<open>
  The claim as it is written quantifies over every period label. For the empty label the
  code falls back to the current period: the row labelled with the empty string is not
  counted, although it is the one row whose period cell equals the argument.
\<close>

theorem calculate_monthly_debt_blank_label_counterexample:
  "calculate_monthly_debt py_float example_today example_blank_label ''Bob'' (Some '''') =
     Inr (0, []) \<and>
   matched_details py_float ''Bob'' '''' (drop 1 example_blank_label) =
     [\<lparr>det_date = ''11.03.2024'', det_items = ''tea'', det_amount = Finite 5\<rparr>]"
  by code_simp

section \<open>The period label, the empty results and the empty filter\<close>

text \<open>
  From 1 to 9 January of year 1 the label cannot be computed: the day before the first
  of the month is not a Python date.
\<close>

lemma resolve_period_year_one_raises:
  assumes "dt_year d = 1" and "dt_month d = 1" and "dt_day d < 10"
  shows "resolve_period d = Inl OverflowError"
  using assms
  by (simp add: resolve_period_def replace_day_def days_in_month_def bind_err_def
      minus_one_day_def)

text \<open>
  Claim C2, as the code has it. For every valid date other than 1 to 9 January of
  year 1, the label computed for \<open>today\<close> is the month and year of the date itself when
  its day is 10 or later, and the month and year of the previous calendar month when
  its day is before the 10th; the month before a January is the December of the year
  before.
\<close>

theorem resolve_period_label:
  assumes "valid_datetime d"
    and "\<not> (dt_year d = 1 \<and> dt_month d = 1 \<and> dt_day d < 10)"
  shows "resolve_period d =
           Inr (if 10 \<le> dt_day d then month_year_label (dt_month d) (dt_year d)
                else month_year_label (fst (previous_month (dt_month d) (dt_year d)))
                       (snd (previous_month (dt_month d) (dt_year d))))"
proof (cases "10 \<le> dt_day d")
  case True
  then show ?thesis by (simp add: resolve_period_def strftime_B_Y_def)
next
  case False
  have first: "replace_day d 1 = Inr (d\<lparr>dt_day := 1\<rparr>)"
    by (simp add: replace_day_def days_in_month_def)
  show ?thesis
  proof (cases "dt_month d = 1")
    case True
    with assms False have "1 < dt_year d" by (simp add: valid_datetime_def)
    with True False first show ?thesis
      by (simp add: resolve_period_def bind_err_def minus_one_day_def strftime_B_Y_def
          previous_month_def)
  next
    case False
    with assms have "1 < dt_month d" by (simp add: valid_datetime_def)
    with False \<open>\<not> 10 \<le> dt_day d\<close> first show ?thesis
      by (simp add: resolve_period_def bind_err_def minus_one_day_def strftime_B_Y_def
          previous_month_def)
  qed
qed

text \<open>
  The example of the specification: on 5 January 2024 the label is December 2023.
\<close>

theorem resolve_period_label_witness:
  "valid_datetime \<lparr>dt_year = 2024, dt_month = 1, dt_day = 5\<rparr> \<and>
   resolve_period \<lparr>dt_year = 2024, dt_month = 1, dt_day = 5\<rparr> = Inr ''December 2023'' \<and>
   resolve_period \<lparr>dt_year = 2024, dt_month = 1, dt_day = 10\<rparr> = Inr ''January 2024''"
proof -
  have v1: "valid_datetime \<lparr>dt_year = 2024, dt_month = 1, dt_day = 5\<rparr>" by code_simp
  have v2: "valid_datetime \<lparr>dt_year = 2024, dt_month = 1, dt_day = 10\<rparr>" by code_simp
  have l1: "month_year_label 12 2023 = ''December 2023''" by code_simp
  have l2: "month_year_label 1 2024 = ''January 2024''" by code_simp
  have "resolve_period \<lparr>dt_year = 2024, dt_month = 1, dt_day = 5\<rparr> = Inr ''December 2023''"
    using resolve_period_label [OF v1] l1 by (simp add: previous_month_def)
  moreover
  have "resolve_period \<lparr>dt_year = 2024, dt_month = 1, dt_day = 10\<rparr> = Inr ''January 2024''"
    using resolve_period_label [OF v2] l2 by simp
  ultimately show ?thesis using v1 by blast
qed

text \<open>
  The claim as it is written speaks of every valid date. On 5 January of year 1 the
  previous month lies before the first date that Python represents, and the subtraction
  of one day raises \<open>OverflowError\<close>: no label is returned.
\<close>

theorem resolve_period_year_one_counterexample:
  "valid_datetime \<lparr>dt_year = 1, dt_month = 1, dt_day = 5\<rparr> \<and>
   resolve_period \<lparr>dt_year = 1, dt_month = 1, dt_day = 5\<rparr> = Inl OverflowError"
  by code_simp

text \<open>
  Claim C6, as the code has it. Let \<open>m\<close> be the label in force (the argument when
  it is given and not empty, the current period otherwise). When no row after the header
  has five cells with the employee cell equal to \<open>employee_name\<close> and the period cell
  equal to \<open>m\<close>, the call returns the total 0 and no details, and raises nothing. An
  empty sheet and a sheet of a header alone are such sheets.
\<close>

theorem calculate_monthly_debt_no_match:
  assumes "effective_month today month = Inr m"
    and "\<forall>row \<in> set (drop 1 debts_data). \<not> monthly_match employee_name m row"
  shows "calculate_monthly_debt fl today debts_data employee_name month = Inr (0, [])"
proof -
  from assms(2) have "filter (monthly_match employee_name m) (drop 1 debts_data) = []"
    by (simp add: filter_empty_conv)
  then have "matched_details fl employee_name m (drop 1 debts_data) = []"
    by (simp add: matched_details_def)
  then show ?thesis
    by (simp add: calculate_monthly_debt_eq [OF assms(1)] sum_amounts_def)
qed

theorem calculate_monthly_debt_no_match_witness:
  "calculate_monthly_debt py_float example_today example_debts ''Zed'' (Some ''March 2024'') =
     Inr (0, []) \<and>
   calculate_monthly_debt py_float example_today [] ''Bob'' None = Inr (0, []) \<and>
   calculate_monthly_debt py_float example_today [example_header] ''Bob'' None = Inr (0, [])"
proof -
  have h1: "effective_month example_today (Some ''March 2024'') = Inr ''March 2024''"
    by code_simp
  have h2: "effective_month example_today None = Inr ''March 2024''"
    by code_simp
  have n1: "\<forall>row \<in> set (drop 1 example_debts). \<not> monthly_match ''Zed'' ''March 2024'' row"
    by code_simp
  have n2: "\<forall>row \<in> set (drop 1 []). \<not> monthly_match ''Bob'' ''March 2024'' row"
    by simp
  have n3: "\<forall>row \<in> set (drop 1 [example_header]). \<not> monthly_match ''Bob'' ''March 2024'' row"
    by simp
  show ?thesis
    using calculate_monthly_debt_no_match [OF h1 n1, of py_float]
      calculate_monthly_debt_no_match [OF h2 n2, of py_float]
      calculate_monthly_debt_no_match [OF h2 n3, of py_float]
    by blast
qed

text \<open>
  The claim as it is written takes the period label as given. For the empty label no
  row of the example carries the employee and that label, yet the code, falling back
  to the current period, returns the two rows of March 2024 and a total that is not 0.
\<close>

theorem calculate_monthly_debt_no_match_counterexample:
  "list_all (\<lambda>row. \<not> (row ! 1 = ''Bob'' \<and> row ! 4 = '''')) (drop 1 example_debts) \<and>
   calculate_monthly_debt py_float example_today example_debts ''Bob'' (Some '''') =
     Inr (Finite (15 / 2),
          [\<lparr>det_date = ''11.03.2024'', det_items = ''tea'', det_amount = Finite 5\<rparr>,
           \<lparr>det_date = ''12.03.2024'', det_items = ''pie'', det_amount = Finite (5 / 2)\<rparr>])"
  by code_simp

text \<open>
  Claim C10. In \<open>get_daily_debts\<close> the empty string as \<open>employee_name\<close> gives
  the result of the call without an employee filter: it does not select the rows whose
  employee cell is empty.
\<close>

theorem get_daily_debts_empty_name:
  "get_daily_debts fl debts_data date (Some []) = get_daily_debts fl debts_data date None"
proof -
  have "daily_match date (Some []) = daily_match date None"
    by (simp add: fun_eq_iff daily_match_def truthy_def)
  then show ?thesis
    by (simp add: get_daily_debts_eq daily_entries_def)
qed

text \<open>
  With the empty name both rows of the day are returned, the one of Bob and the one
  whose employee cell is empty.
\<close>

theorem get_daily_debts_empty_name_witness:
  "get_daily_debts py_float example_daily ''11.03.2024'' (Some []) =
     Inr [\<lparr>dd_employee = ''Bob'', dd_items = ''tea'', dd_amount = Finite 5\<rparr>,
          \<lparr>dd_employee = [], dd_items = ''cake'', dd_amount = Finite 7\<rparr>]"
proof -
  have "get_daily_debts py_float example_daily ''11.03.2024'' None =
     Inr [\<lparr>dd_employee = ''Bob'', dd_items = ''tea'', dd_amount = Finite 5\<rparr>,
          \<lparr>dd_employee = [], dd_items = ''cake'', dd_amount = Finite 7\<rparr>]"
    by code_simp
  then show ?thesis
    using get_daily_debts_empty_name [of py_float example_daily "''11.03.2024''"] by simp
qed

section \<open>Short rows and amounts that do not parse\<close>

lemma matched_details_skip:
  assumes "\<not> monthly_match e m row \<or> monthly_detail fl row = None"
  shows "matched_details fl e m (before @ row # after) = matched_details fl e m (before @ after)"
  using assms by (auto simp: matched_details_def map_filter_def)

lemma daily_entries_skip:
  assumes "\<not> daily_match date emp row \<or> daily_entry fl row = None"
  shows "daily_entries fl date emp (before @ row # after) = daily_entries fl date emp (before @ after)"
  using assms by (auto simp: daily_entries_def map_filter_def)

lemma calculate_monthly_debt_cong:
  assumes "\<And>m. matched_details fl e m (drop 1 xs) = matched_details fl e m (drop 1 ys)"
  shows "calculate_monthly_debt fl today xs e month = calculate_monthly_debt fl today ys e month"
proof (cases "effective_month today month")
  case (Inl x)
  then show ?thesis by (simp add: calculate_monthly_debt_raises)
next
  case (Inr m)
  with assms [of m] show ?thesis by (simp add: calculate_monthly_debt_eq)
qed

text \<open>
  Claim C9. A row of fewer than five cells adds nothing to the total and the details of
  \<open>calculate_monthly_debt\<close>: the result is the one of the sheet without the row,
  whatever its cells and whatever the employee and the period asked for. A row of fewer
  than four cells adds nothing to the result of \<open>get_daily_debts\<close>. No sheet makes
  either call raise: \<open>get_daily_debts\<close> always returns, and
  \<open>calculate_monthly_debt\<close> raises exactly when the computation of the period label
  does, which reads no row.
\<close>

theorem short_rows_ignored:
  "(length row < 5 \<longrightarrow>
      calculate_monthly_debt fl today (header # before @ row # after) employee_name month =
      calculate_monthly_debt fl today (header # before @ after) employee_name month) \<and>
   (length row < 4 \<longrightarrow>
      get_daily_debts fl (header # before @ row # after) date employee =
      get_daily_debts fl (header # before @ after) date employee) \<and>
   isl (calculate_monthly_debt fl today debts_data employee_name month) =
     isl (effective_month today month) \<and>
   \<not> isl (get_daily_debts fl debts_data date employee)"
proof (intro conjI impI)
  assume "length row < 5"
  then have "\<And>m. \<not> monthly_match employee_name m row"
    by (simp add: monthly_match_def)
  then show "calculate_monthly_debt fl today (header # before @ row # after) employee_name month =
      calculate_monthly_debt fl today (header # before @ after) employee_name month"
    by (intro calculate_monthly_debt_cong) (simp add: matched_details_skip)
next
  assume "length row < 4"
  then have "\<not> daily_match date employee row"
    by (simp add: daily_match_def)
  then show "get_daily_debts fl (header # before @ row # after) date employee =
      get_daily_debts fl (header # before @ after) date employee"
    by (simp add: get_daily_debts_eq daily_entries_skip)
next
  show "isl (calculate_monthly_debt fl today debts_data employee_name month) =
     isl (effective_month today month)"
    by (cases "effective_month today month")
      (simp_all add: calculate_monthly_debt_raises calculate_monthly_debt_eq)
next
  show "\<not> isl (get_daily_debts fl debts_data date employee)"
    by (simp add: get_daily_debts_eq)
qed

text \<open>
  A sheet with rows of four, three and no cells between two full rows.
\<close>

theorem short_rows_ignored_witness:
  "calculate_monthly_debt py_float example_today example_ragged ''Bob'' (Some ''March 2024'') =
     Inr (Finite 6,
          [\<lparr>det_date = ''11.03.2024'', det_items = ''tea'', det_amount = Finite 5\<rparr>,
           \<lparr>det_date = ''12.03.2024'', det_items = ''jam'', det_amount = Finite 1\<rparr>]) \<and>
   get_daily_debts py_float example_ragged ''11.03.2024'' None =
     Inr [\<lparr>dd_employee = ''Bob'', dd_items = ''tea'', dd_amount = Finite 5\<rparr>,
          \<lparr>dd_employee = ''Bob'', dd_items = ''cake'', dd_amount = Finite 7\<rparr>]"
proof -
  let ?r1 = "[''11.03.2024'', ''Bob'', ''tea'', ''5'', ''March 2024'']"
  let ?r2 = "[''11.03.2024'', ''Bob'', ''cake'', ''7'']"
  let ?r3 = "[''11.03.2024'', ''Bob'', ''pie'']"
  let ?r5 = "[''12.03.2024'', ''Bob'', ''jam'', ''1'', ''March 2024'']"
  have e: "example_ragged = example_header # [?r1] @ ?r2 # [?r3, [], ?r5]"
    by (simp add: example_ragged_def)
  have e': "example_ragged = example_header # [?r1, ?r2] @ ?r3 # [[], ?r5]"
    by (simp add: example_ragged_def)
  have m: "calculate_monthly_debt py_float example_today
             (example_header # [?r1] @ [?r3, [], ?r5]) ''Bob'' (Some ''March 2024'') =
     Inr (Finite 6,
          [\<lparr>det_date = ''11.03.2024'', det_items = ''tea'', det_amount = Finite 5\<rparr>,
           \<lparr>det_date = ''12.03.2024'', det_items = ''jam'', det_amount = Finite 1\<rparr>])"
    by code_simp
  have d: "get_daily_debts py_float (example_header # [?r1, ?r2] @ [[], ?r5]) ''11.03.2024'' None =
     Inr [\<lparr>dd_employee = ''Bob'', dd_items = ''tea'', dd_amount = Finite 5\<rparr>,
          \<lparr>dd_employee = ''Bob'', dd_items = ''cake'', dd_amount = Finite 7\<rparr>]"
    by code_simp
  have "calculate_monthly_debt py_float example_today example_ragged ''Bob'' (Some ''March 2024'') =
        calculate_monthly_debt py_float example_today
             (example_header # [?r1] @ [?r3, [], ?r5]) ''Bob'' (Some ''March 2024'')"
    unfolding e
    using short_rows_ignored [of ?r2 py_float example_today example_header "[?r1]" "[?r3, [], ?r5]"
        "''Bob''" "Some ''March 2024''"]
    by simp
  moreover
  have "get_daily_debts py_float example_ragged ''11.03.2024'' None =
        get_daily_debts py_float (example_header # [?r1, ?r2] @ [[], ?r5]) ''11.03.2024'' None"
    unfolding e'
    using short_rows_ignored [of ?r3 py_float _ example_header "[?r1, ?r2]" "[[], ?r5]"
        _ _ "''11.03.2024''" None]
    by simp
  ultimately show ?thesis using m d by simp
qed

text \<open>
  Claim C4. A row whose amount cell \<open>float\<close> rejects adds nothing to the total and
  the details of \<open>calculate_monthly_debt\<close> nor to the list of
  \<open>get_daily_debts\<close>; the rows before and after it are scanned as if it were absent,
  and nothing is raised.
\<close>

theorem unparsable_amount_skipped:
  assumes "effective_month today month = Inr m"
    and "3 < length row" and "fl (row ! 3) = None"
  shows "calculate_monthly_debt fl today (header # before @ row # after) employee_name month =
           Inr (sum_amounts
                  (map det_amount (matched_details fl employee_name m (before @ after))),
                matched_details fl employee_name m (before @ after)) \<and>
         get_daily_debts fl (header # before @ row # after) date employee =
           Inr (daily_entries fl date employee (before @ after))"
proof -
  from assms(3) have "monthly_detail fl row = None" "daily_entry fl row = None"
    by (simp_all add: monthly_detail_def daily_entry_def)
  then show ?thesis
    by (simp add: calculate_monthly_debt_eq [OF assms(1)] get_daily_debts_eq
        matched_details_skip daily_entries_skip)
qed

text \<open>
  The example of the specification: of five rows of one employee the third has the
  amount \<open>abc\<close>; the total is the sum 10 of the other four.
\<close>

theorem unparsable_amount_skipped_witness:
  "py_float ''abc'' = None \<and>
   calculate_monthly_debt py_float example_today example_malformed ''Bob'' None =
     Inr (Finite 10,
          [\<lparr>det_date = ''11.03.2024'', det_items = ''tea'', det_amount = Finite 1\<rparr>,
           \<lparr>det_date = ''11.03.2024'', det_items = ''cake'', det_amount = Finite 2\<rparr>,
           \<lparr>det_date = ''11.03.2024'', det_items = ''jam'', det_amount = Finite 3\<rparr>,
           \<lparr>det_date = ''11.03.2024'', det_items = ''bun'', det_amount = Finite 4\<rparr>]) \<and>
   get_daily_debts py_float example_malformed ''11.03.2024'' None =
     Inr [\<lparr>dd_employee = ''Bob'', dd_items = ''tea'', dd_amount = Finite 1\<rparr>,
          \<lparr>dd_employee = ''Bob'', dd_items = ''cake'', dd_amount = Finite 2\<rparr>,
          \<lparr>dd_employee = ''Bob'', dd_items = ''jam'', dd_amount = Finite 3\<rparr>,
          \<lparr>dd_employee = ''Bob'', dd_items = ''bun'', dd_amount = Finite 4\<rparr>]"
proof -
  let ?r1 = "[''11.03.2024'', ''Bob'', ''tea'', ''1'', ''March 2024'']"
  let ?r2 = "[''11.03.2024'', ''Bob'', ''cake'', ''2'', ''March 2024'']"
  let ?r3 = "[''11.03.2024'', ''Bob'', ''pie'', ''abc'', ''March 2024'']"
  let ?r4 = "[''11.03.2024'', ''Bob'', ''jam'', ''3'', ''March 2024'']"
  let ?r5 = "[''11.03.2024'', ''Bob'', ''bun'', ''4'', ''March 2024'']"
  let ?ds = "[\<lparr>det_date = ''11.03.2024'', det_items = ''tea'', det_amount = Finite 1\<rparr>,
           \<lparr>det_date = ''11.03.2024'', det_items = ''cake'', det_amount = Finite 2\<rparr>,
           \<lparr>det_date = ''11.03.2024'', det_items = ''jam'', det_amount = Finite 3\<rparr>,
           \<lparr>det_date = ''11.03.2024'', det_items = ''bun'', det_amount = Finite 4\<rparr>]"
  have e: "example_malformed = example_header # [?r1, ?r2] @ ?r3 # [?r4, ?r5]"
    by (simp add: example_malformed_def)
  have h: "effective_month example_today None = Inr ''March 2024''"
    by code_simp
  have l: "3 < length ?r3"
    by simp
  have a: "py_float ''abc'' = None"
    by code_simp
  then have p: "py_float (?r3 ! 3) = None"
    by simp
  have d: "matched_details py_float ''Bob'' ''March 2024'' ([?r1, ?r2] @ [?r4, ?r5]) = ?ds"
    by code_simp
  have s: "sum_amounts (map det_amount ?ds) = Finite 10"
    by code_simp
  have y: "daily_entries py_float ''11.03.2024'' None ([?r1, ?r2] @ [?r4, ?r5]) =
      [\<lparr>dd_employee = ''Bob'', dd_items = ''tea'', dd_amount = Finite 1\<rparr>,
       \<lparr>dd_employee = ''Bob'', dd_items = ''cake'', dd_amount = Finite 2\<rparr>,
       \<lparr>dd_employee = ''Bob'', dd_items = ''jam'', dd_amount = Finite 3\<rparr>,
       \<lparr>dd_employee = ''Bob'', dd_items = ''bun'', dd_amount = Finite 4\<rparr>]"
    by code_simp
  note t = unparsable_amount_skipped
      [where fl = py_float and row = ?r3 and header = example_header and before = "[?r1, ?r2]"
         and after = "[?r4, ?r5]" and employee_name = "''Bob''" and date = "''11.03.2024''"
         and employee = None,
       OF h l p, unfolded d s y, folded e]
  show ?thesis using t a by blast
qed

section \<open>The amounts that are included\<close>

lemma set_map_filter:
  "x \<in> set (List.map_filter f xs) \<longleftrightarrow> (\<exists>y \<in> set xs. f y = Some x)"
  by (induction xs) (auto split: option.splits)

lemma matched_details_parsed:
  assumes "d \<in> set (matched_details fl e m rows)"
  shows "\<exists>row \<in> set rows. fl (row ! 3) = Some (det_amount d)"
proof -
  from assms obtain row where "row \<in> set rows" and "monthly_detail fl row = Some d"
    by (auto simp: matched_details_def set_map_filter)
  then show ?thesis
    by (auto simp: monthly_detail_def)
qed

lemma daily_entries_parsed:
  assumes "x \<in> set (daily_entries fl date emp rows)"
  shows "\<exists>row \<in> set rows. fl (row ! 3) = Some (dd_amount x)"
proof -
  from assms obtain row where "row \<in> set rows" and "daily_entry fl row = Some x"
    by (auto simp: daily_entries_def set_map_filter)
  then show ?thesis
    by (auto simp: daily_entry_def)
qed

text \<open>
  Claim C5, as the code has it. Every amount in the details of
  \<open>calculate_monthly_debt\<close> and in the entries of \<open>get_daily_debts\<close> is the value
  that \<open>float\<close> returned for the amount cell of a row of the sheet, so a row whose
  amount does not parse is never included; the total is the sum of the amounts of the
  details. The code does not look at the sign of an amount.
\<close>

theorem included_amounts_parsed:
  "(calculate_monthly_debt fl today debts_data employee_name month = Inr (tot, details) \<longrightarrow>
      tot = sum_amounts (map det_amount details) \<and>
      (\<forall>d \<in> set details. \<exists>row \<in> set (drop 1 debts_data). fl (row ! 3) = Some (det_amount d))) \<and>
   (get_daily_debts fl debts_data date employee = Inr entries \<longrightarrow>
      (\<forall>x \<in> set entries. \<exists>row \<in> set (drop 1 debts_data). fl (row ! 3) = Some (dd_amount x)))"
proof (intro conjI impI)
  assume r: "calculate_monthly_debt fl today debts_data employee_name month = Inr (tot, details)"
  then obtain m where m: "effective_month today month = Inr m"
    by (cases "effective_month today month") (simp_all add: calculate_monthly_debt_raises)
  from r have t: "tot = sum_amounts (map det_amount details)"
    and d: "details = matched_details fl employee_name m (drop 1 debts_data)"
    by (auto simp: calculate_monthly_debt_eq [OF m])
  show "tot = sum_amounts (map det_amount details)" by (rule t)
  show "\<forall>d \<in> set details. \<exists>row \<in> set (drop 1 debts_data). fl (row ! 3) = Some (det_amount d)"
    unfolding d by (blast dest: matched_details_parsed)
next
  assume "get_daily_debts fl debts_data date employee = Inr entries"
  then have e: "entries = daily_entries fl date employee (drop 1 debts_data)"
    by (simp add: get_daily_debts_eq)
  show "\<forall>x \<in> set entries. \<exists>row \<in> set (drop 1 debts_data). fl (row ! 3) = Some (dd_amount x)"
    unfolding e by (blast dest: daily_entries_parsed)
qed

text \<open>
  On the example sheet every amount returned is the parsed amount cell of a row.
\<close>

theorem included_amounts_parsed_witness:
  "calculate_monthly_debt py_float example_today example_debts ''Bob'' None =
     Inr (Finite (15 / 2),
          [\<lparr>det_date = ''11.03.2024'', det_items = ''tea'', det_amount = Finite 5\<rparr>,
           \<lparr>det_date = ''12.03.2024'', det_items = ''pie'', det_amount = Finite (5 / 2)\<rparr>]) \<and>
   list_all (\<lambda>d. list_ex (\<lambda>row. py_float (row ! 3) = Some (det_amount d)) (drop 1 example_debts))
     [\<lparr>det_date = ''11.03.2024'', det_items = ''tea'', det_amount = Finite 5\<rparr>,
      \<lparr>det_date = ''12.03.2024'', det_items = ''pie'', det_amount = Finite (5 / 2)\<rparr>] \<and>
   get_daily_debts py_float example_debts ''12.03.2024'' None =
     Inr [\<lparr>dd_employee = ''Bob'', dd_items = ''pie'', dd_amount = Finite (5 / 2)\<rparr>] \<and>
   list_all (\<lambda>x. list_ex (\<lambda>row. py_float (row ! 3) = Some (dd_amount x)) (drop 1 example_debts))
     [\<lparr>dd_employee = ''Bob'', dd_items = ''pie'', dd_amount = Finite (5 / 2)\<rparr>]"
proof -
  have c: "calculate_monthly_debt py_float example_today example_debts ''Bob'' None =
     Inr (Finite (15 / 2),
          [\<lparr>det_date = ''11.03.2024'', det_items = ''tea'', det_amount = Finite 5\<rparr>,
           \<lparr>det_date = ''12.03.2024'', det_items = ''pie'', det_amount = Finite (5 / 2)\<rparr>])"
    by code_simp
  have g: "get_daily_debts py_float example_debts ''12.03.2024'' None =
     Inr [\<lparr>dd_employee = ''Bob'', dd_items = ''pie'', dd_amount = Finite (5 / 2)\<rparr>]"
    by code_simp
  show ?thesis
    using included_amounts_parsed
      [where fl = py_float and today = example_today and debts_data = example_debts
         and employee_name = "''Bob''" and month = None and date = "''12.03.2024''"
         and employee = None] c g
    unfolding list_all_iff list_ex_iff by blast
qed

text \<open>
  The claim as it is written says that no included amount is negative. The amount
  \<open>-5\<close> parses, is added to the total, and appears in the details and in the list of
  the day.
\<close>

theorem negative_amount_included_counterexample:
  "calculate_monthly_debt py_float example_today example_refund ''Bob'' None =
     Inr (Finite 0,
          [\<lparr>det_date = ''11.03.2024'', det_items = ''tea'', det_amount = Finite 5\<rparr>,
           \<lparr>det_date = ''11.03.2024'', det_items = ''refund'', det_amount = Finite (- 5)\<rparr>]) \<and>
   get_daily_debts py_float example_refund ''11.03.2024'' None =
     Inr [\<lparr>dd_employee = ''Bob'', dd_items = ''tea'', dd_amount = Finite 5\<rparr>,
          \<lparr>dd_employee = ''Bob'', dd_items = ''refund'', dd_amount = Finite (- 5)\<rparr>] \<and>
   Finite (- 5) < (0 :: pyfloat)"
  by code_simp

section \<open>The summary and the running total\<close>

text \<open>
  Claim C3. Whenever the period label can be computed, and in an arithmetic where
  \<open>0 < 0\<close> is false as in Python, \<open>get_all_debts_summary\<close> lists, in the order of
  the employees sheet and without removing duplicates, exactly the names of
  \<open>get_all_employees\<close> whose total from \<open>calculate_monthly_debt\<close> is greater than
  0, each with that total; its grand total is the sum of the totals listed. An employee
  whose total is 0 is not listed.
\<close>

theorem get_all_debts_summary_included:
  assumes "effective_month today month = Inr m"
    and "\<not> (0 :: 'a :: {zero,plus,ord}) < 0"
  shows "let total_of = employee_total (fl :: string \<Rightarrow> 'a option) today debts_data month;
             included = filter (\<lambda>e. 0 < total_of e) (employee_names employees_data)
         in get_all_debts_summary fl today employees_data debts_data month =
              Inr (sum_amounts (map total_of included),
                   map (\<lambda>e. \<lparr>sl_employee = e, sl_total = total_of e\<rparr>) included) \<and>
            (\<forall>e. total_of e = 0 \<longrightarrow> e \<notin> set included)"
  using assms(2)
  by (auto simp: Let_def get_all_debts_summary_def get_all_employees_eq bind_err_def
      summary_loop_eq [OF assms(1)] sum_amounts_def)

text \<open>
  The example of the specification: A owes 50, B owes 0 and C owes 30; the summary
  lists A and C and the grand total is 80.
\<close>

theorem get_all_debts_summary_included_witness:
  "\<not> (0 :: pyfloat) < 0 \<and>
   employee_names example_employees = [''A'', ''B'', ''C''] \<and>
   get_all_debts_summary py_float example_today example_employees example_abc None =
     Inr (Finite 80,
          [\<lparr>sl_employee = ''A'', sl_total = Finite 50\<rparr>,
           \<lparr>sl_employee = ''C'', sl_total = Finite 30\<rparr>])"
proof -
  have h: "effective_month example_today None = Inr ''March 2024''"
    by code_simp
  have z: "\<not> (0 :: pyfloat) < 0"
    by code_simp
  have n: "employee_names example_employees = [''A'', ''B'', ''C'']"
    by code_simp
  have a: "employee_total py_float example_today example_abc None ''A'' = Finite 50"
    by code_simp
  have b: "employee_total py_float example_today example_abc None ''B'' = Finite 0"
    by code_simp
  have c: "employee_total py_float example_today example_abc None ''C'' = Finite 30"
    by code_simp
  have p: "(0 :: pyfloat) < Finite 50" "\<not> (0 :: pyfloat) < Finite 0" "(0 :: pyfloat) < Finite 30"
    by code_simp+
  have s: "sum_amounts [Finite 50, Finite 30] = Finite 80"
    by code_simp
  show ?thesis
    using get_all_debts_summary_included
      [OF h z, of py_float example_abc example_employees] z
    by (simp add: Let_def n a b c p s)
qed

text \<open>
  Claim C7 describes the running total of the detail view: each detail, in the order
  given, is annotated with the sum of the amounts up to and including it. The code does
  not deliver it. For every sheet, user and button, \<open>employee_button_handler\<close> raises
  \<open>NameError\<close> at its first statement, because the name \<open>update\<close> is bound neither
  in the function nor in the module, and the loop that forms the running total is never
  reached.
\<close>

theorem employee_button_handler_name_error:
  "employee_button_handler fl today employees_data debts_data user_id query_data =
     Inl NameError"
proof -
  have "load_name handler_names ''update'' = Inl NameError"
    by code_simp
  then show ?thesis
    by (simp add: employee_button_handler_def bind_err_def)
qed

text \<open>
  The failing input: employee 101, whose name is A, presses the button of the detail
  view on 15 March 2024, and the debts sheet holds three rows of A for the current
  period with the amounts 10, 5 and 20. The handler raises, although the employee is
  found, the details it would have read are those three rows, and the loop over them
  gives 10, 15 and 35.
\<close>

theorem employee_button_handler_name_error_witness:
  "employee_button_handler py_float example_today example_employees example_loan
     ''101'' ''my_debt_details'' = Inl NameError \<and>
   get_employee_name example_employees ''101'' = Inr (Some ''A'') \<and>
   calculate_monthly_debt py_float example_today example_loan ''A'' None =
     Inr (Finite 35, example_details) \<and>
   map snd (running_total_loop 0 [] example_details) = [Finite 10, Finite 15, Finite 35]"
proof -
  have n: "get_employee_name example_employees ''101'' = Inr (Some ''A'')"
    by code_simp
  have c: "calculate_monthly_debt py_float example_today example_loan ''A'' None =
     Inr (Finite 35, example_details)"
    by code_simp
  have r: "map snd (running_total_loop 0 [] example_details) =
     [Finite 10, Finite 15, Finite 35]"
    by code_simp
  show ?thesis
    using employee_button_handler_name_error
      [of py_float example_today example_employees example_loan "''101''"
         "''my_debt_details''"] n c r
    by blast
qed

section \<open>The employee filter of a day\<close>

lemma daily_entries_named:
  assumes "employee_name \<noteq> []"
  shows "daily_entries fl date (Some employee_name) rows =
           List.map_filter (daily_entry fl)
             (filter (\<lambda>row. 4 \<le> length row \<and> row ! 0 = date \<and> row ! 1 = employee_name) rows)"
proof -
  from assms have "daily_match date (Some employee_name) =
      (\<lambda>row. 4 \<le> length row \<and> row ! 0 = date \<and> row ! 1 = employee_name)"
    by (simp add: fun_eq_iff daily_match_def truthy_def)
  then show ?thesis by (simp add: daily_entries_def)
qed

lemma daily_entries_unnamed:
  "daily_entries fl date None rows =
     List.map_filter (daily_entry fl) (filter (\<lambda>row. 4 \<le> length row \<and> row ! 0 = date) rows)"
proof -
  have "daily_match date None = (\<lambda>row. 4 \<le> length row \<and> row ! 0 = date)"
    by (simp add: fun_eq_iff daily_match_def truthy_def)
  then show ?thesis by (simp add: daily_entries_def)
qed

lemma filter_daily_entries:
  "filter (\<lambda>x. dd_employee x = n) (List.map_filter (daily_entry fl) (filter P rows)) =
     List.map_filter (daily_entry fl) (filter (\<lambda>row. P row \<and> row ! 1 = n) rows)"
  by (induction rows) (auto simp: daily_entry_def split: option.splits)

text \<open>
  Claim C8, as the code has it. For a name that is not empty, the list that
  \<open>get_daily_debts\<close> returns with the employee filter consists of the entries of the
  list returned without the filter whose employee equals the name, in the same order;
  it is a sublist of the unfiltered list, and it may be the whole of it. Its entries
  come from exactly the rows after the header that have at least four cells, whose date
  cell equals the date and whose employee cell equals the name as strings, and whose
  amount \<open>float\<close> accepts.
\<close>

theorem get_daily_debts_filter_subseq:
  assumes "employee_name \<noteq> []"
  shows "let rows = drop 1 debts_data;
             unfiltered = daily_entries fl date None rows;
             filtered = daily_entries fl date (Some employee_name) rows
         in get_daily_debts fl debts_data date None = Inr unfiltered \<and>
            get_daily_debts fl debts_data date (Some employee_name) = Inr filtered \<and>
            filtered = filter (\<lambda>x. dd_employee x = employee_name) unfiltered \<and>
            subseq filtered unfiltered \<and>
            filtered =
              List.map_filter (daily_entry fl)
                (filter (\<lambda>row. 4 \<le> length row \<and> row ! 0 = date \<and> row ! 1 = employee_name) rows)"
proof -
  let ?rows = "drop 1 debts_data"
  have f: "daily_entries fl date (Some employee_name) ?rows =
        filter (\<lambda>x. dd_employee x = employee_name) (daily_entries fl date None ?rows)"
    unfolding daily_entries_named [OF assms] daily_entries_unnamed filter_daily_entries
    by (simp add: conj_ac)
  have s: "subseq (daily_entries fl date (Some employee_name) ?rows)
             (daily_entries fl date None ?rows)"
    unfolding f by (rule subseq_filter_left)
  have n: "daily_entries fl date (Some employee_name) ?rows =
        List.map_filter (daily_entry fl)
          (filter (\<lambda>row. 4 \<le> length row \<and> row ! 0 = date \<and> row ! 1 = employee_name) ?rows)"
    by (rule daily_entries_named [OF assms])
  have g1: "get_daily_debts fl debts_data date None = Inr (daily_entries fl date None ?rows)"
    by (rule get_daily_debts_eq)
  have g2: "get_daily_debts fl debts_data date (Some employee_name) =
        Inr (daily_entries fl date (Some employee_name) ?rows)"
    by (rule get_daily_debts_eq)
  show ?thesis
    unfolding Let_def using g1 g2 f s n by blast
qed

text \<open>
  On the example sheet the day has an entry of Bob and one of Ann; the filter keeps the
  one of Ann.
\<close>

theorem get_daily_debts_filter_subseq_witness:
  "get_daily_debts py_float example_debts ''11.03.2024'' None =
     Inr [\<lparr>dd_employee = ''Bob'', dd_items = ''tea'', dd_amount = Finite 5\<rparr>,
          \<lparr>dd_employee = ''Ann'', dd_items = ''cake'', dd_amount = Finite 7\<rparr>] \<and>
   get_daily_debts py_float example_debts ''11.03.2024'' (Some ''Ann'') =
     Inr [\<lparr>dd_employee = ''Ann'', dd_items = ''cake'', dd_amount = Finite 7\<rparr>]"
proof -
  have n: "''Ann'' \<noteq> []" by simp
  have u: "daily_entries py_float ''11.03.2024'' None (drop 1 example_debts) =
     [\<lparr>dd_employee = ''Bob'', dd_items = ''tea'', dd_amount = Finite 5\<rparr>,
      \<lparr>dd_employee = ''Ann'', dd_items = ''cake'', dd_amount = Finite 7\<rparr>]"
    by code_simp
  show ?thesis
    using get_daily_debts_filter_subseq [OF n, of example_debts py_float "''11.03.2024''"]
    unfolding Let_def u by simp
qed

text \<open>
  The claim as it is written calls the filtered result a strict subset. When every
  row of the day belongs to the employee, the filtered and the unfiltered results are
  the same list.
\<close>

theorem get_daily_debts_not_strict_counterexample:
  "get_daily_debts py_float example_blank_label ''11.03.2024'' (Some ''Bob'') =
     Inr [\<lparr>dd_employee = ''Bob'', dd_items = ''tea'', dd_amount = Finite 5\<rparr>] \<and>
   get_daily_debts py_float example_blank_label ''11.03.2024'' None =
     Inr [\<lparr>dd_employee = ''Bob'', dd_items = ''tea'', dd_amount = Finite 5\<rparr>]"
  by code_simp

end
